theory Spec2Isabelle
  imports Main
begin

section \<open>The page state of script.js\<close>

text \<open>
  script.js keeps no variables for the theme: everything lives in the browser. The
  record below holds the parts of the browser that the script reads or writes.

  \<^item> \<open>dataTheme\<close>: the attribute \<^verbatim>\<open>data-theme\<close> of \<^verbatim>\<open>document.documentElement\<close>;
    \<^verbatim>\<open>getAttribute\<close> gives \<^verbatim>\<open>null\<close> (here \<open>None\<close>) when it was never set.
  \<^item> \<open>storage\<close>: the key \<^verbatim>\<open>'theme'\<close> of \<^verbatim>\<open>localStorage\<close>; \<^verbatim>\<open>getItem\<close> gives
    \<^verbatim>\<open>null\<close> when the key is absent, and any string (the empty one too) otherwise.
  \<^item> \<open>iconOpacity\<close>, \<open>iconDarkOpacity\<close>: \<^verbatim>\<open>style.opacity\<close> of the elements
    \<^verbatim>\<open>themeIcon\<close> and \<^verbatim>\<open>themeIconDark\<close>.
  \<^item> \<open>toggleTransform\<close>, \<open>ariaLabel\<close>: \<^verbatim>\<open>style.transform\<close> and the attribute
    \<^verbatim>\<open>aria-label\<close> of the element \<^verbatim>\<open>themeToggle\<close>.
  \<^item> \<open>bodyVisibility\<close>: \<^verbatim>\<open>document.body.style.visibility\<close>.
  \<^item> \<open>timers\<close>: how many callbacks of \<^verbatim>\<open>animateToggle\<close> wait in \<^verbatim>\<open>setTimeout\<close>.
  \<^item> \<open>initOnReady\<close>: whether \<^verbatim>\<open>init\<close> is registered as a listener of
    \<^verbatim>\<open>DOMContentLoaded\<close> (line 150).
  \<^item> \<open>observing\<close>: whether \<^verbatim>\<open>themeObserver.observe\<close> (lines 190 to 193) has run.
  \<^item> \<open>records\<close>: the mutation records queued for \<^verbatim>\<open>themeObserver\<close> and not yet
    delivered, each by its \<^verbatim>\<open>attributeName\<close>. A MutationObserver is called back
    after the running script has returned, with all the records queued meanwhile.
  \<^item> \<open>dispatched\<close>: the \<^verbatim>\<open>detail.theme\<close> of every \<^verbatim>\<open>themechange\<close> event given to
    \<^verbatim>\<open>window.dispatchEvent\<close>, oldest first.

  The four elements fetched in lines 6 to 9 are taken to exist. Output to the console
  is not part of the state: \<^verbatim>\<open>console.log\<close> changes nothing the script reads. The
  listeners that touch none of these fields are left out: the one of \<^verbatim>\<open>load\<close> (lines 160
  to 168), the click counter (lines 257 to 267), the smooth scrolling (lines 274 to 286)
  and the logger of \<^verbatim>\<open>themechange\<close> (lines 293 to 295).
\<close>

record page =
  dataTheme :: "string option"
  storage :: "string option"
  iconOpacity :: string
  iconDarkOpacity :: string
  toggleTransform :: string
  ariaLabel :: "string option"
  bodyVisibility :: string
  timers :: nat
  initOnReady :: bool
  observing :: bool
  records :: "string list"
  dispatched :: "string option list"

text \<open>
  JavaScript's test \<^verbatim>\<open>if (v)\<close> on a value that is a string or \<^verbatim>\<open>null\<close>: \<^verbatim>\<open>null\<close> and
  the empty string are falsy, every other string is truthy.
\<close>

fun truthy :: "string option \<Rightarrow> bool" where
  "truthy None = False"
| "truthy (Some v) = (v \<noteq> [])"

section \<open>Theme functions (lines 19 to 86)\<close>

text \<open>
  \<^verbatim>\<open>htmlElement.setAttribute('data-theme', theme)\<close>. Setting an attribute queues a
  mutation record for an observer of that attribute, also when the new value equals the
  old one.
\<close>

definition setAttribute_dataTheme :: "string \<Rightarrow> page \<Rightarrow> page" where
  "setAttribute_dataTheme theme s =
     s\<lparr>dataTheme := Some theme,
       records := (if observing s then records s @ [''data-theme''] else records s)\<rparr>"

definition localStorage_setItem :: "string \<Rightarrow> page \<Rightarrow> page" where
  "localStorage_setItem theme s = s\<lparr>storage := Some theme\<rparr>"

definition updateThemeIcons :: "string \<Rightarrow> page \<Rightarrow> page" where
  "updateThemeIcons theme s =
     (if theme = ''dark''
      then s\<lparr>iconOpacity := ''0.5'', iconDarkOpacity := ''1''\<rparr>
      else s\<lparr>iconOpacity := ''1'', iconDarkOpacity := ''0.5''\<rparr>)"

text \<open>\<^verbatim>\<open>logThemeChange\<close> only writes to the console.\<close>

definition logThemeChange :: "string \<Rightarrow> page \<Rightarrow> page" where
  "logThemeChange theme s = s"

definition setTheme :: "string \<Rightarrow> page \<Rightarrow> page" where
  "setTheme theme s =
     logThemeChange theme
       (updateThemeIcons theme
         (localStorage_setItem theme
           (setAttribute_dataTheme theme s)))"

text \<open>
  \<^verbatim>\<open>animateToggle\<close> scales the control down and leaves a timer behind;
  \<open>animateToggle_timeout\<close> is the timer's callback, 100 ms later.
\<close>

definition animateToggle :: "page \<Rightarrow> page" where
  "animateToggle s = s\<lparr>toggleTransform := ''scale(0.95)'', timers := Suc (timers s)\<rparr>"

definition animateToggle_timeout :: "page \<Rightarrow> page" where
  "animateToggle_timeout s =
     (case timers s of
        0 \<Rightarrow> s
      | Suc n \<Rightarrow> s\<lparr>toggleTransform := ''scale(1)'', timers := n\<rparr>)"

definition toggleTheme :: "page \<Rightarrow> page" where
  "toggleTheme s =
     (let currentTheme = dataTheme s;
          newTheme = (if currentTheme = Some ''dark'' then ''light'' else ''dark'')
      in animateToggle (setTheme newTheme s))"

text \<open>
  \<^verbatim>\<open>loadTheme\<close>. The parameter \<open>prefersDark\<close> is what
  \<^verbatim>\<open>window.matchMedia('(prefers-color-scheme: dark)').matches\<close> answers.
\<close>

definition loadTheme :: "bool \<Rightarrow> page \<Rightarrow> page" where
  "loadTheme prefersDark s =
     (case storage s of
        Some savedTheme \<Rightarrow>
          (if truthy (Some savedTheme) then setTheme savedTheme s
           else setTheme (if prefersDark then ''dark'' else ''light'') s)
      | None \<Rightarrow> setTheme (if prefersDark then ''dark'' else ''light'') s)"

section \<open>Listeners, accessibility and initialisation (lines 93 to 153)\<close>

text \<open>
  The \<^verbatim>\<open>keydown\<close> listener of the control; \<open>key\<close> is \<^verbatim>\<open>e.key\<close>. Its
  \<^verbatim>\<open>preventDefault\<close> concerns the browser's scrolling, not the page state.
\<close>

definition onKeydown :: "string \<Rightarrow> page \<Rightarrow> page" where
  "onKeydown key s = (if key = ''Enter'' \<or> key = '' '' then toggleTheme s else s)"

text \<open>
  The \<^verbatim>\<open>change\<close> listener of the media query; \<open>matches\<close> is \<^verbatim>\<open>e.matches\<close>.
\<close>

definition onSystemChange :: "bool \<Rightarrow> page \<Rightarrow> page" where
  "onSystemChange matches s =
     (if \<not> truthy (storage s)
      then setTheme (if matches then ''dark'' else ''light'') s
      else s)"

definition updateAriaLabel :: "page \<Rightarrow> page" where
  "updateAriaLabel s =
     (let currentTheme = dataTheme s;
          label = (if currentTheme = Some ''dark''
                   then ''Switch to light mode'' else ''Switch to dark mode'')
      in s\<lparr>ariaLabel := Some label\<rparr>)"

definition init :: "bool \<Rightarrow> page \<Rightarrow> page" where
  "init prefersDark s =
     (updateAriaLabel (loadTheme prefersDark s))\<lparr>bodyVisibility := ''visible''\<rparr>"

section \<open>The observer of the attribute (lines 175 to 193)\<close>

text \<open>
  The callback of \<^verbatim>\<open>themeObserver\<close> runs over the records it is given. For a record of
  \<^verbatim>\<open>data-theme\<close> it reads the attribute as it is now (not as the record's mutation left
  it), renews the label and dispatches the event.
\<close>

definition dispatch_themechange :: "string option \<Rightarrow> page \<Rightarrow> page" where
  "dispatch_themechange theme s = s\<lparr>dispatched := dispatched s @ [theme]\<rparr>"

fun themeObserver :: "string list \<Rightarrow> page \<Rightarrow> page" where
  "themeObserver [] s = s"
| "themeObserver (attributeName # mutations) s =
     themeObserver mutations
       (if attributeName = ''data-theme''
        then (let newTheme = dataTheme s
              in dispatch_themechange newTheme (updateAriaLabel s))
        else s)"

definition observe :: "page \<Rightarrow> page" where
  "observe s = s\<lparr>observing := True\<rparr>"

text \<open>
  The browser delivers the queued records once the running listener has returned.
\<close>

definition deliver :: "page \<Rightarrow> page" where
  "deliver s = themeObserver (records s) (s\<lparr>records := []\<rparr>)"

text \<open>
  The script itself, run once when the page loads it: the label of lines 118 and 119,
  the choice of lines 149 to 153 between calling \<^verbatim>\<open>init\<close> at once and leaving it to
  \<^verbatim>\<open>DOMContentLoaded\<close>, then the registration of the observer in lines 190 to 193.
  \<open>loading\<close> is \<^verbatim>\<open>document.readyState === 'loading'\<close>: true for a script that the
  parser runs while it reads the page, false for a deferred or injected one.
\<close>

definition script :: "bool \<Rightarrow> bool \<Rightarrow> page \<Rightarrow> page" where
  "script loading prefersDark s =
     (let s1 = s\<lparr>ariaLabel := Some ''Toggle dark mode''\<rparr>;
          s2 = (if loading then s1\<lparr>initOnReady := True\<rparr> else init prefersDark s1)
      in observe s2)"

definition onDOMContentLoaded :: "bool \<Rightarrow> page \<Rightarrow> page" where
  "onDOMContentLoaded prefersDark s = (if initOnReady s then init prefersDark s else s)"

section \<open>Accessors (lines 203 to 213)\<close>

definition getCurrentTheme :: "page \<Rightarrow> string option" where
  "getCurrentTheme s = dataTheme s"

definition isDarkMode :: "page \<Rightarrow> bool" where
  "isDarkMode s = (getCurrentTheme s = Some ''dark'')"

section \<open>The visibility listener (lines 298 to 309)\<close>

text \<open>\<open>hidden\<close> is \<^verbatim>\<open>document.hidden\<close> when the event arrives.\<close>

definition onVisibilityChange :: "bool \<Rightarrow> page \<Rightarrow> page" where
  "onVisibilityChange hidden s =
     (if \<not> hidden
      then (let savedTheme = storage s;
                currentTheme = getCurrentTheme s
            in case savedTheme of
                 Some v \<Rightarrow>
                   (if truthy savedTheme \<and> savedTheme \<noteq> currentTheme
                    then setTheme v s else s)
               | None \<Rightarrow> s)
      else s)"

section \<open>The page as a machine\<close>

text \<open>
  What can happen to the page once the script is loaded: the end of parsing (with what
  the system prefers at that moment), a click on the control, a key pressed on it, a
  change of the system's colour scheme, a change of the page's visibility, a timer of
  the animation running out. Each listener runs to its end, then the observer receives
  its records.
\<close>

datatype input =
    DOMContentLoaded bool
  | Click
  | Keydown string
  | SystemChange bool
  | VisibilityChange bool
  | Timeout

fun listener :: "input \<Rightarrow> page \<Rightarrow> page" where
  "listener (DOMContentLoaded prefersDark) s = onDOMContentLoaded prefersDark s"
| "listener Click s = toggleTheme s"
| "listener (Keydown key) s = onKeydown key s"
| "listener (SystemChange matches) s = onSystemChange matches s"
| "listener (VisibilityChange hidden) s = onVisibilityChange hidden s"
| "listener Timeout s = animateToggle_timeout s"

definition handle :: "input \<Rightarrow> page \<Rightarrow> page" where
  "handle e s = deliver (listener e s)"

fun run :: "input list \<Rightarrow> page \<Rightarrow> page" where
  "run [] s = s"
| "run (e # es) s = run es (handle e s)"

text \<open>
  The start of the page: \<^verbatim>\<open>init\<close>, then the delivery of what it queued.
\<close>

definition start :: "bool \<Rightarrow> page \<Rightarrow> page" where
  "start prefersDark s = deliver (init prefersDark s)"

text \<open>
  Two pages for the examples, both with nothing stored and no attribute: \<open>blank\<close> is
  the page before the script has run, \<open>fresh\<close> the page with the observer registered.
\<close>

definition blank :: page where
  "blank = \<lparr>dataTheme = None, storage = None, iconOpacity = [], iconDarkOpacity = [],
     toggleTransform = [], ariaLabel = None, bodyVisibility = [],
     timers = 0, initOnReady = False, observing = False, records = [], dispatched = []\<rparr>"

definition fresh :: page where
  "fresh = \<lparr>dataTheme = None, storage = None, iconOpacity = [], iconDarkOpacity = [],
     toggleTransform = [], ariaLabel = Some ''Toggle dark mode'', bodyVisibility = [],
     timers = 0, initOnReady = False, observing = True, records = [], dispatched = []\<rparr>"

section \<open>Basic facts\<close>

lemma setTheme_fields [simp]:
  "dataTheme (setTheme t s) = Some t"
  "storage (setTheme t s) = Some t"
  "iconOpacity (setTheme t s) = (if t = ''dark'' then ''0.5'' else ''1'')"
  "iconDarkOpacity (setTheme t s) = (if t = ''dark'' then ''1'' else ''0.5'')"
  "dispatched (setTheme t s) = dispatched s"
  "observing (setTheme t s) = observing s"
  "records (setTheme t s) = (if observing s then records s @ [''data-theme''] else records s)"
  by (simp_all add: setTheme_def logThemeChange_def updateThemeIcons_def
      localStorage_setItem_def setAttribute_dataTheme_def)

section \<open>The initial theme\<close>

text \<open>
  C1. \<^verbatim>\<open>loadTheme\<close> prefers the stored theme: with \<^verbatim>\<open>"dark"\<close> stored the applied theme
  is dark even when the system does not prefer dark; with nothing stored it is dark when
  the system prefers dark, and light when it does not.
\<close>

theorem loadTheme_precedence:
  "(storage s = Some ''dark'' \<longrightarrow> dataTheme (loadTheme False s) = Some ''dark'')
   \<and> (storage s = None \<longrightarrow> dataTheme (loadTheme True s) = Some ''dark'')
   \<and> (storage s = None \<longrightarrow> dataTheme (loadTheme False s) = Some ''light'')"
  by (simp add: loadTheme_def)

theorem loadTheme_precedence_witness:
  "dataTheme (loadTheme False (fresh\<lparr>storage := Some ''dark''\<rparr>)) = Some ''dark''
   \<and> dataTheme (loadTheme True fresh) = Some ''dark''
   \<and> dataTheme (loadTheme False fresh) = Some ''light''"
proof -
  have stored: "storage (fresh\<lparr>storage := Some ''dark''\<rparr>) = Some ''dark''"
    by simp
  have absent: "storage fresh = None"
    by (simp add: fresh_def)
  from stored absent loadTheme_precedence [of "fresh\<lparr>storage := Some ''dark''\<rparr>"]
    loadTheme_precedence [of fresh]
  show ?thesis by blast
qed

text \<open>
  C2 as stated: a stored value that is neither \<^verbatim>\<open>"light"\<close> nor \<^verbatim>\<open>"dark"\<close> is treated as
  absent. \<^verbatim>\<open>loadTheme\<close> tests the stored value for truthiness only, so with \<^verbatim>\<open>"blue"\<close>
  stored and a system that prefers dark, the attribute and the store end as \<^verbatim>\<open>"blue"\<close>,
  where an absent value gives \<^verbatim>\<open>"dark"\<close>.
\<close>

theorem loadTheme_malformed_counterexample:
  "dataTheme (loadTheme True (fresh\<lparr>storage := Some ''blue''\<rparr>)) = Some ''blue''
   \<and> storage (loadTheme True (fresh\<lparr>storage := Some ''blue''\<rparr>)) = Some ''blue''
   \<and> dataTheme (loadTheme True fresh) = Some ''dark''
   \<and> loadTheme True (fresh\<lparr>storage := Some ''blue''\<rparr>) \<noteq> loadTheme True fresh"
proof -
  have blue: "dataTheme (loadTheme True (fresh\<lparr>storage := Some ''blue''\<rparr>)) = Some ''blue''"
    by (simp add: loadTheme_def)
  have kept: "storage (loadTheme True (fresh\<lparr>storage := Some ''blue''\<rparr>)) = Some ''blue''"
    by (simp add: loadTheme_def)
  have dark: "dataTheme (loadTheme True fresh) = Some ''dark''"
    by (simp add: loadTheme_def fresh_def)
  have "dataTheme (loadTheme True (fresh\<lparr>storage := Some ''blue''\<rparr>))
          \<noteq> dataTheme (loadTheme True fresh)"
    unfolding blue dark by simp
  then have "loadTheme True (fresh\<lparr>storage := Some ''blue''\<rparr>) \<noteq> loadTheme True fresh"
    by auto
  with blue kept dark show ?thesis by simp
qed

text \<open>
  C2 as amended: every stored value that is not the empty string, valid or not, is applied
  as it is, whatever the system prefers: \<^verbatim>\<open>loadTheme\<close> is then \<^verbatim>\<open>setTheme\<close> of the stored
  value, so the attribute and the store hold it. Only an absent or empty stored value
  falls back to the system's preference.
\<close>

theorem loadTheme_applies_stored:
  "(storage s = Some v \<and> v \<noteq> [] \<longrightarrow>
      loadTheme prefersDark s = setTheme v s
      \<and> dataTheme (loadTheme prefersDark s) = Some v
      \<and> storage (loadTheme prefersDark s) = Some v)
   \<and> (storage s = None \<or> storage s = Some [] \<longrightarrow>
      loadTheme prefersDark s = setTheme (if prefersDark then ''dark'' else ''light'') s)"
  by (auto simp add: loadTheme_def)

theorem loadTheme_applies_stored_witness:
  "loadTheme True (fresh\<lparr>storage := Some ''blue''\<rparr>)
     = setTheme ''blue'' (fresh\<lparr>storage := Some ''blue''\<rparr>)
   \<and> dataTheme (loadTheme True (fresh\<lparr>storage := Some ''blue''\<rparr>)) = Some ''blue''
   \<and> storage (loadTheme True (fresh\<lparr>storage := Some ''blue''\<rparr>)) = Some ''blue''
   \<and> loadTheme True (fresh\<lparr>storage := Some []\<rparr>)
     = setTheme ''dark'' (fresh\<lparr>storage := Some []\<rparr>)"
proof -
  have stored: "storage (fresh\<lparr>storage := Some ''blue''\<rparr>) = Some ''blue'' \<and> ''blue'' \<noteq> []"
    by simp
  have empty: "storage (fresh\<lparr>storage := Some []\<rparr>) = Some []"
    by simp
  have "(if True then ''dark'' else ''light'') = ''dark''"
    by simp
  with stored empty
    loadTheme_applies_stored [of "fresh\<lparr>storage := Some ''blue''\<rparr>" "''blue''" True]
    loadTheme_applies_stored [of "fresh\<lparr>storage := Some []\<rparr>" "[]" True]
  show ?thesis by metis
qed

section \<open>The applier\<close>

text \<open>
  C3. \<^verbatim>\<open>setTheme\<close> is idempotent: after two calls with the same theme the attribute, the
  stored value and the opacities of the two icons are what they are after one call.
\<close>

theorem setTheme_idempotent:
  "dataTheme (setTheme t (setTheme t s)) = dataTheme (setTheme t s)
   \<and> storage (setTheme t (setTheme t s)) = storage (setTheme t s)
   \<and> iconOpacity (setTheme t (setTheme t s)) = iconOpacity (setTheme t s)
   \<and> iconDarkOpacity (setTheme t (setTheme t s)) = iconDarkOpacity (setTheme t s)"
  by simp

section \<open>The toggle\<close>

lemma animateToggle_fields [simp]:
  "dataTheme (animateToggle s) = dataTheme s"
  "storage (animateToggle s) = storage s"
  "dispatched (animateToggle s) = dispatched s"
  "observing (animateToggle s) = observing s"
  "records (animateToggle s) = records s"
  by (simp_all add: animateToggle_def)

lemma toggleTheme_dataTheme:
  "dataTheme (toggleTheme s) = Some (if dataTheme s = Some ''dark'' then ''light'' else ''dark'')"
  by (simp add: toggleTheme_def Let_def)

text \<open>
  C4. \<^verbatim>\<open>toggleTheme\<close> inverts the applied theme: from light it goes to dark and from dark
  to light, and a second call brings the first theme back.
\<close>

theorem toggleTheme_inverse:
  "(dataTheme s = Some ''light'' \<longrightarrow>
      dataTheme (toggleTheme s) = Some ''dark''
      \<and> dataTheme (toggleTheme (toggleTheme s)) = Some ''light'')
   \<and> (dataTheme s = Some ''dark'' \<longrightarrow>
      dataTheme (toggleTheme s) = Some ''light''
      \<and> dataTheme (toggleTheme (toggleTheme s)) = Some ''dark'')"
  by (simp add: toggleTheme_dataTheme)

theorem toggleTheme_inverse_witness:
  "dataTheme (toggleTheme (fresh\<lparr>dataTheme := Some ''light''\<rparr>)) = Some ''dark''
   \<and> dataTheme (toggleTheme (toggleTheme (fresh\<lparr>dataTheme := Some ''light''\<rparr>))) = Some ''light''
   \<and> dataTheme (toggleTheme (fresh\<lparr>dataTheme := Some ''dark''\<rparr>)) = Some ''light''
   \<and> dataTheme (toggleTheme (toggleTheme (fresh\<lparr>dataTheme := Some ''dark''\<rparr>))) = Some ''dark''"
proof -
  have light: "dataTheme (fresh\<lparr>dataTheme := Some ''light''\<rparr>) = Some ''light''"
    by simp
  have dark: "dataTheme (fresh\<lparr>dataTheme := Some ''dark''\<rparr>) = Some ''dark''"
    by simp
  from light dark toggleTheme_inverse [of "fresh\<lparr>dataTheme := Some ''light''\<rparr>"]
    toggleTheme_inverse [of "fresh\<lparr>dataTheme := Some ''dark''\<rparr>"]
  show ?thesis by blast
qed

text \<open>
  C10. From any attribute that is not exactly \<^verbatim>\<open>"dark"\<close>, absent and invalid values
  included, \<^verbatim>\<open>toggleTheme\<close> goes to \<^verbatim>\<open>"dark"\<close>; so after one call the attribute is always
  \<^verbatim>\<open>"light"\<close> or \<^verbatim>\<open>"dark"\<close>.
\<close>

theorem toggleTheme_from_not_dark:
  "(dataTheme s \<noteq> Some ''dark'' \<longrightarrow> dataTheme (toggleTheme s) = Some ''dark'')
   \<and> (dataTheme (toggleTheme s) = Some ''light'' \<or> dataTheme (toggleTheme s) = Some ''dark'')"
  by (simp add: toggleTheme_dataTheme)

theorem toggleTheme_from_not_dark_witness:
  "dataTheme (toggleTheme fresh) = Some ''dark''
   \<and> dataTheme (toggleTheme (fresh\<lparr>dataTheme := Some ''blue''\<rparr>)) = Some ''dark''
   \<and> dataTheme (toggleTheme (fresh\<lparr>dataTheme := Some []\<rparr>)) = Some ''dark''"
proof -
  have absent: "dataTheme fresh \<noteq> Some ''dark''"
    by (simp add: fresh_def)
  have blue: "dataTheme (fresh\<lparr>dataTheme := Some ''blue''\<rparr>) \<noteq> Some ''dark''"
    by simp
  have empty: "dataTheme (fresh\<lparr>dataTheme := Some []\<rparr>) \<noteq> Some ''dark''"
    by simp
  from absent blue empty toggleTheme_from_not_dark [of fresh]
    toggleTheme_from_not_dark [of "fresh\<lparr>dataTheme := Some ''blue''\<rparr>"]
    toggleTheme_from_not_dark [of "fresh\<lparr>dataTheme := Some []\<rparr>"]
  show ?thesis by blast
qed

section \<open>The observer\<close>

lemma updateAriaLabel_fields [simp]:
  "dataTheme (updateAriaLabel s) = dataTheme s"
  "storage (updateAriaLabel s) = storage s"
  "dispatched (updateAriaLabel s) = dispatched s"
  "observing (updateAriaLabel s) = observing s"
  "records (updateAriaLabel s) = records s"
  "ariaLabel (updateAriaLabel s) =
     Some (if dataTheme s = Some ''dark'' then ''Switch to light mode''
           else ''Switch to dark mode'')"
  by (simp_all add: updateAriaLabel_def Let_def)

lemma dispatch_themechange_fields [simp]:
  "dataTheme (dispatch_themechange p s) = dataTheme s"
  "storage (dispatch_themechange p s) = storage s"
  "dispatched (dispatch_themechange p s) = dispatched s @ [p]"
  "observing (dispatch_themechange p s) = observing s"
  "records (dispatch_themechange p s) = records s"
  "ariaLabel (dispatch_themechange p s) = ariaLabel s"
  by (simp_all add: dispatch_themechange_def)

lemma themeObserver_keeps:
  "dataTheme (themeObserver ms s) = dataTheme s
   \<and> storage (themeObserver ms s) = storage s
   \<and> observing (themeObserver ms s) = observing s
   \<and> records (themeObserver ms s) = records s"
  by (induction ms arbitrary: s) (simp_all add: Let_def)

lemma themeObserver_append:
  "themeObserver (ms @ ns) s = themeObserver ns (themeObserver ms s)"
  by (induction ms arbitrary: s) simp_all

lemma themeObserver_one:
  "themeObserver [''data-theme''] s = dispatch_themechange (dataTheme s) (updateAriaLabel s)"
  by (simp add: Let_def)

lemma deliver_keeps [simp]:
  "dataTheme (deliver s) = dataTheme s"
  "storage (deliver s) = storage s"
  "observing (deliver s) = observing s"
  "records (deliver s) = []"
  by (simp_all add: deliver_def themeObserver_keeps)

lemma deliver_nothing: "records s = [] \<Longrightarrow> deliver s = s"
  by (simp add: deliver_def)

lemma deliver_setTheme_dispatched:
  assumes "observing s" and "records s = []"
  shows "dispatched (deliver (setTheme t s)) = dispatched s @ [Some t]"
proof -
  have "records (setTheme t s) = [''data-theme'']"
    using assms by simp
  then have "deliver (setTheme t s)
      = themeObserver [''data-theme''] ((setTheme t s)\<lparr>records := []\<rparr>)"
    by (simp add: deliver_def)
  then show ?thesis
    by (simp add: themeObserver_one)
qed

lemma deliver_setTheme_ariaLabel:
  assumes "observing s"
  shows "ariaLabel (deliver (setTheme t s))
    = Some (if t = ''dark'' then ''Switch to light mode'' else ''Switch to dark mode'')"
proof -
  let ?s' = "(setTheme t s)\<lparr>records := []\<rparr>"
  have "records (setTheme t s) = records s @ [''data-theme'']"
    using assms by simp
  then have "deliver (setTheme t s)
      = themeObserver [''data-theme''] (themeObserver (records s) ?s')"
    by (simp add: deliver_def themeObserver_append)
  moreover have "dataTheme (themeObserver (records s) ?s') = Some t"
    by (simp add: themeObserver_keeps)
  ultimately show ?thesis
    by (simp add: themeObserver_one)
qed

text \<open>
  Every listener finds the observer registered and nothing waiting for it: the script
  registers the observer before it ends, and each listener is followed by a delivery.
\<close>

lemma init_observing [simp]: "observing (init prefersDark s) = observing s"
  by (simp add: init_def loadTheme_def split: option.splits)

lemma listener_observing: "observing (listener e s) = observing s"
  by (cases e)
    (simp_all add: onDOMContentLoaded_def toggleTheme_def onKeydown_def onSystemChange_def
      onVisibilityChange_def animateToggle_timeout_def Let_def split: option.splits nat.splits)

lemma script_quiet:
  "observing (deliver (script loading prefersDark s))
   \<and> records (deliver (script loading prefersDark s)) = []"
  by (simp add: script_def observe_def Let_def)

lemma handle_quiet:
  "observing s \<Longrightarrow> observing (handle e s) \<and> records (handle e s) = []"
  by (simp add: handle_def listener_observing)

lemma setTheme_observed_once:
  "observing s \<Longrightarrow> records s = [] \<Longrightarrow>
     dispatched (deliver (setTheme t s)) = dispatched s @ [Some t]
     \<and> dataTheme (deliver (setTheme t s)) = Some t"
  by (simp add: deliver_setTheme_dispatched)

text \<open>
  C6. Every call of \<^verbatim>\<open>setTheme\<close> that changes the attribute is to dispatch exactly one
  \<^verbatim>\<open>themechange\<close> event carrying the new value. The script fails this for its first call
  when it runs with the document no longer loading: line 152 then calls \<^verbatim>\<open>init\<close> before
  line 190 registers the observer that dispatches the events. On a page with nothing
  stored and a system that prefers dark, \<^verbatim>\<open>loadTheme\<close> is \<^verbatim>\<open>setTheme('dark')\<close>, the
  attribute goes from absent to \<^verbatim>\<open>"dark"\<close>, and no event is dispatched, neither by the
  call nor once the script has ended. On the other arm of lines 149 to 153, where
  \<^verbatim>\<open>init\<close> waits for \<^verbatim>\<open>DOMContentLoaded\<close>, the same first call on the same page
  dispatches its one event.
\<close>

theorem init_before_observe_silent:
  "dataTheme blank = None
   \<and> loadTheme True blank = setTheme ''dark'' blank
   \<and> dataTheme (setTheme ''dark'' blank) = Some ''dark''
   \<and> dispatched (deliver (setTheme ''dark'' blank)) = []
   \<and> dataTheme (deliver (script False True blank)) = Some ''dark''
   \<and> dispatched (deliver (script False True blank)) = []
   \<and> dataTheme (handle (DOMContentLoaded True) (deliver (script True True blank))) = Some ''dark''
   \<and> dispatched (handle (DOMContentLoaded True) (deliver (script True True blank)))
       = [Some ''dark'']"
proof -
  have absent: "dataTheme blank = None"
    by (simp add: blank_def)
  have call: "loadTheme True blank = setTheme ''dark'' blank"
    by (simp add: loadTheme_def blank_def)
  have changed: "dataTheme (setTheme ''dark'' blank) = Some ''dark''"
    by simp
  have unseen: "records (setTheme ''dark'' blank) = []"
    by (simp add: blank_def)
  have silent: "dispatched (deliver (setTheme ''dark'' blank)) = []"
    using deliver_nothing [OF unseen] by (simp add: blank_def)
  have applied: "dataTheme (deliver (script False True blank)) = Some ''dark''"
    by (simp add: script_def observe_def init_def loadTheme_def blank_def)
  have "records (script False True blank) = []"
    by (simp add: script_def observe_def init_def loadTheme_def blank_def)
  then have "deliver (script False True blank) = script False True blank"
    by (rule deliver_nothing)
  moreover have "dispatched (script False True blank) = []"
    by (simp add: script_def observe_def init_def loadTheme_def blank_def)
  ultimately have scripted: "dispatched (deliver (script False True blank)) = []"
    by simp
  let ?waiting = "blank\<lparr>ariaLabel := Some ''Toggle dark mode'', initOnReady := True,
    observing := True\<rparr>"
  have "records (script True True blank) = []"
    by (simp add: script_def observe_def blank_def)
  then have "deliver (script True True blank) = script True True blank"
    by (rule deliver_nothing)
  also have "\<dots> = ?waiting"
    by (simp add: script_def observe_def)
  finally have loaded: "deliver (script True True blank) = ?waiting" .
  have "listener (DOMContentLoaded True) ?waiting = init True ?waiting"
    by (simp add: onDOMContentLoaded_def)
  also have "\<dots> = (updateAriaLabel (setTheme ''dark'' ?waiting))\<lparr>bodyVisibility := ''visible''\<rparr>"
    by (simp add: init_def loadTheme_def blank_def)
  finally have ready: "listener (DOMContentLoaded True) ?waiting
      = (updateAriaLabel (setTheme ''dark'' ?waiting))\<lparr>bodyVisibility := ''visible''\<rparr>" .
  have later: "dataTheme (handle (DOMContentLoaded True) (deliver (script True True blank)))
      = Some ''dark''"
    unfolding loaded handle_def ready by simp
  have heard: "dispatched (handle (DOMContentLoaded True) (deliver (script True True blank)))
      = [Some ''dark'']"
    unfolding loaded handle_def ready
    by (simp add: deliver_def themeObserver_one blank_def)
  from absent call changed silent applied scripted later heard show ?thesis
    by simp
qed

section \<open>The display\<close>

text \<open>
  C9. For every string but \<^verbatim>\<open>"dark"\<close> (so for \<^verbatim>\<open>"light"\<close>, the empty string and any
  invalid value), \<^verbatim>\<open>setTheme\<close> sets the light icon's opacity to \<^verbatim>\<open>"1"\<close> and the dark
  icon's to \<^verbatim>\<open>"0.5"\<close>, and the label derived from the new attribute, by \<^verbatim>\<open>updateAriaLabel\<close>
  as \<^verbatim>\<open>init\<close> calls it or by the observer, is \<^verbatim>\<open>"Switch to dark mode"\<close>. Only \<^verbatim>\<open>"dark"\<close>
  gives the other display.
\<close>

theorem setTheme_display:
  "(t \<noteq> ''dark'' \<longrightarrow>
      iconOpacity (setTheme t s) = ''1''
      \<and> iconDarkOpacity (setTheme t s) = ''0.5''
      \<and> ariaLabel (updateAriaLabel (setTheme t s)) = Some ''Switch to dark mode''
      \<and> (observing s \<longrightarrow> ariaLabel (deliver (setTheme t s)) = Some ''Switch to dark mode''))
   \<and> iconOpacity (setTheme ''dark'' s) = ''0.5''
   \<and> iconDarkOpacity (setTheme ''dark'' s) = ''1''
   \<and> ariaLabel (updateAriaLabel (setTheme ''dark'' s)) = Some ''Switch to light mode''
   \<and> (observing s \<longrightarrow> ariaLabel (deliver (setTheme ''dark'' s)) = Some ''Switch to light mode'')"
  by (simp add: deliver_setTheme_ariaLabel)

theorem setTheme_display_witness:
  "iconOpacity (setTheme ''blue'' fresh) = ''1''
   \<and> iconDarkOpacity (setTheme ''blue'' fresh) = ''0.5''
   \<and> ariaLabel (updateAriaLabel (setTheme ''blue'' fresh)) = Some ''Switch to dark mode''
   \<and> ariaLabel (deliver (setTheme ''blue'' fresh)) = Some ''Switch to dark mode''
   \<and> ariaLabel (deliver (setTheme [] fresh)) = Some ''Switch to dark mode''
   \<and> ariaLabel (deliver (setTheme ''dark'' fresh)) = Some ''Switch to light mode''"
proof -
  have blue: "''blue'' \<noteq> ''dark''" and empty: "[] \<noteq> ''dark''"
    by simp_all
  have obs: "observing fresh"
    by (simp add: fresh_def)
  from blue empty obs setTheme_display [of "''blue''" fresh] setTheme_display [of "[]" fresh]
  show ?thesis by blast
qed

section \<open>Changes of the system's preference\<close>

lemma run_SystemChange_keeps:
  "truthy (storage s) \<Longrightarrow>
     dataTheme (run (map SystemChange ms) s) = dataTheme s
     \<and> storage (run (map SystemChange ms) s) = storage s"
  by (induction ms arbitrary: s) (simp_all add: handle_def onSystemChange_def)

text \<open>
  C5. While a value that is not empty is stored, a change of the system's preference
  leaves the attribute as it is (the listener changes nothing at all), and so does any
  number of such changes one after the other; the system's theme is applied only when
  nothing, or the empty string, is stored.
\<close>

theorem onSystemChange_suppressed:
  "(storage s = Some v \<and> v \<noteq> [] \<longrightarrow>
      onSystemChange matches s = s
      \<and> dataTheme (handle (SystemChange matches) s) = dataTheme s
      \<and> dataTheme (run (map SystemChange ms) s) = dataTheme s)
   \<and> (storage s = None \<or> storage s = Some [] \<longrightarrow>
      dataTheme (onSystemChange matches s) = Some (if matches then ''dark'' else ''light''))"
  by (auto simp add: onSystemChange_def handle_def run_SystemChange_keeps)

theorem onSystemChange_suppressed_witness:
  "onSystemChange True (fresh\<lparr>dataTheme := Some ''light'', storage := Some ''light''\<rparr>)
     = fresh\<lparr>dataTheme := Some ''light'', storage := Some ''light''\<rparr>
   \<and> dataTheme (handle (SystemChange True)
        (fresh\<lparr>dataTheme := Some ''light'', storage := Some ''light''\<rparr>)) = Some ''light''
   \<and> dataTheme (run (map SystemChange [True, False, True])
        (fresh\<lparr>dataTheme := Some ''light'', storage := Some ''light''\<rparr>)) = Some ''light''
   \<and> dataTheme (onSystemChange True fresh) = Some ''dark''"
proof -
  let ?s = "fresh\<lparr>dataTheme := Some ''light'', storage := Some ''light''\<rparr>"
  have stored: "storage ?s = Some ''light'' \<and> ''light'' \<noteq> []"
    and applied: "dataTheme ?s = Some ''light''"
    by simp_all
  have absent: "storage fresh = None"
    by (simp add: fresh_def)
  have "(if True then ''dark'' else ''light'') = ''dark''"
    by simp
  with stored applied absent
    onSystemChange_suppressed [of ?s "''light''" True "[True, False, True]"]
    onSystemChange_suppressed [of fresh "[]" True "[]"]
  show ?thesis by metis
qed

section \<open>Reconciliation when the page becomes visible\<close>

text \<open>
  C7. When the page becomes visible and a value that is not empty is stored and differs
  from the attribute, the listener is \<^verbatim>\<open>setTheme\<close> of the stored value: the attribute
  becomes that value and, the observer being registered with nothing waiting, one event
  with that value is dispatched. When the two agree, or nothing or the empty string is
  stored, or the page became hidden, the listener changes nothing.
\<close>

theorem onVisibilityChange_reconciles:
  "(storage s = Some v \<and> v \<noteq> [] \<and> dataTheme s \<noteq> Some v \<longrightarrow>
      onVisibilityChange False s = setTheme v s
      \<and> dataTheme (handle (VisibilityChange False) s) = Some v
      \<and> (observing s \<and> records s = [] \<longrightarrow>
           dispatched (handle (VisibilityChange False) s) = dispatched s @ [Some v]))
   \<and> (storage s = dataTheme s \<or> storage s = None \<or> storage s = Some [] \<longrightarrow>
      onVisibilityChange False s = s)
   \<and> onVisibilityChange True s = s"
  by (auto simp add: onVisibilityChange_def getCurrentTheme_def handle_def Let_def
      deliver_setTheme_dispatched split: option.splits)

theorem onVisibilityChange_reconciles_witness:
  "dataTheme (handle (VisibilityChange False)
       (fresh\<lparr>dataTheme := Some ''dark'', storage := Some ''light''\<rparr>)) = Some ''light''
   \<and> dispatched (handle (VisibilityChange False)
       (fresh\<lparr>dataTheme := Some ''dark'', storage := Some ''light''\<rparr>)) = [Some ''light'']
   \<and> onVisibilityChange False (fresh\<lparr>dataTheme := Some ''dark'', storage := Some ''dark''\<rparr>)
       = fresh\<lparr>dataTheme := Some ''dark'', storage := Some ''dark''\<rparr>
   \<and> onVisibilityChange False (fresh\<lparr>dataTheme := Some ''dark''\<rparr>)
       = fresh\<lparr>dataTheme := Some ''dark''\<rparr>"
proof -
  let ?drift = "fresh\<lparr>dataTheme := Some ''dark'', storage := Some ''light''\<rparr>"
  let ?same = "fresh\<lparr>dataTheme := Some ''dark'', storage := Some ''dark''\<rparr>"
  let ?unset = "fresh\<lparr>dataTheme := Some ''dark''\<rparr>"
  have drift: "storage ?drift = Some ''light'' \<and> ''light'' \<noteq> []
      \<and> dataTheme ?drift \<noteq> Some ''light''"
    by simp
  have quiet: "observing ?drift \<and> records ?drift = []"
    and before: "dispatched ?drift @ [Some ''light''] = [Some ''light'']"
    by (simp_all add: fresh_def)
  have same: "storage ?same = dataTheme ?same"
    by simp
  have unset: "storage ?unset = None"
    by (simp add: fresh_def)
  from drift quiet before same unset
    onVisibilityChange_reconciles [of ?drift "''light''"]
    onVisibilityChange_reconciles [of ?same "''dark''"]
    onVisibilityChange_reconciles [of ?unset "[]"]
  show ?thesis by metis
qed

section \<open>Convergence of the store and the attribute\<close>

lemma setTheme_converges: "storage (setTheme t s) = dataTheme (setTheme t s)"
  by simp

lemma init_converges: "storage (init prefersDark s) = dataTheme (init prefersDark s)"
  by (simp add: init_def loadTheme_def split: option.splits)

lemma listener_converges:
  assumes "storage s = dataTheme s"
  shows "storage (listener e s) = dataTheme (listener e s)"
proof (cases e)
  case (DOMContentLoaded prefersDark)
  with assms show ?thesis
    by (simp add: onDOMContentLoaded_def init_converges)
next
  case Click
  then show ?thesis by (simp add: toggleTheme_def Let_def)
next
  case (Keydown key)
  with assms show ?thesis by (simp add: onKeydown_def toggleTheme_def Let_def)
next
  case (SystemChange matches)
  with assms show ?thesis by (simp add: onSystemChange_def)
next
  case (VisibilityChange hidden)
  with assms show ?thesis
    by (simp add: onVisibilityChange_def getCurrentTheme_def Let_def split: option.splits)
next
  case Timeout
  with assms show ?thesis
    by (simp add: animateToggle_timeout_def split: nat.splits)
qed

lemma handle_converges:
  "storage s = dataTheme s \<Longrightarrow> storage (handle e s) = dataTheme (handle e s)"
  by (simp add: handle_def listener_converges)

lemma run_converges:
  "storage s = dataTheme s \<Longrightarrow> storage (run es s) = dataTheme (run es s)"
  by (induction es arbitrary: s) (simp_all add: handle_converges)

lemma start_converges: "storage (start prefersDark s) = dataTheme (start prefersDark s)"
  by (simp add: start_def init_converges)

lemma toggleTheme_converges:
  "storage (toggleTheme s) = Some (if dataTheme s = Some ''dark'' then ''light'' else ''dark'')
   \<and> dataTheme (toggleTheme s) = Some (if dataTheme s = Some ''dark'' then ''light'' else ''dark'')"
  by (simp add: toggleTheme_def Let_def)

lemma loadTheme_converges:
  "storage (loadTheme prefersDark s) = dataTheme (loadTheme prefersDark s)
   \<and> dataTheme (loadTheme prefersDark s) \<noteq> None"
  by (simp add: loadTheme_def split: option.splits)

lemma onSystemChange_converges:
  "(\<not> truthy (storage s) \<longrightarrow>
      storage (onSystemChange matches s) = Some (if matches then ''dark'' else ''light'')
      \<and> dataTheme (onSystemChange matches s) = Some (if matches then ''dark'' else ''light''))
   \<and> (truthy (storage s) \<longrightarrow> onSystemChange matches s = s)"
  by (simp add: onSystemChange_def)

lemma onVisibilityChange_converges:
  "(storage s = Some v \<and> v \<noteq> [] \<and> dataTheme s \<noteq> Some v \<longrightarrow>
      storage (onVisibilityChange False s) = Some v
      \<and> dataTheme (onVisibilityChange False s) = Some v)
   \<and> (storage s = dataTheme s \<or> \<not> truthy (storage s) \<longrightarrow> onVisibilityChange False s = s)
   \<and> onVisibilityChange True s = s"
  by (auto simp add: onVisibilityChange_def getCurrentTheme_def Let_def split: option.splits)

text \<open>
  C8. After every completed operation that changes the theme, the stored value and the
  attribute are the same, because each one goes through \<^verbatim>\<open>setTheme\<close>, which writes both.
  Operation by operation, from any page whatever, drifted ones included:
  \<^item> \<^verbatim>\<open>setTheme\<close> leaves its argument in both;
  \<^item> the initial resolution (\<^verbatim>\<open>loadTheme\<close>, and \<^verbatim>\<open>init\<close> around it) leaves the same
    value, not an absent one, in both;
  \<^item> \<^verbatim>\<open>toggleTheme\<close> leaves the inverse of the attribute in both;
  \<^item> the listener of the system's preference, when nothing or the empty string is
    stored, leaves the system's theme in both, and otherwise changes nothing;
  \<^item> the visibility listener, when a stored value that is not empty differs from the
    attribute, leaves the stored value in both, and otherwise changes nothing;
  \<^item> the delivery to the observer that ends an operation changes neither.

  So every listener keeps the two equal, and from whatever the browser holds when the
  page starts they are equal after the initial resolution and after every sequence of
  listeners that follows it.
\<close>

theorem store_and_attribute_converge:
  "storage (setTheme t s) = Some t \<and> dataTheme (setTheme t s) = Some t
   \<and> storage (loadTheme prefersDark s) = dataTheme (loadTheme prefersDark s)
   \<and> dataTheme (loadTheme prefersDark s) \<noteq> None
   \<and> storage (init prefersDark s) = dataTheme (loadTheme prefersDark s)
   \<and> dataTheme (init prefersDark s) = dataTheme (loadTheme prefersDark s)
   \<and> storage (toggleTheme s) = Some (if dataTheme s = Some ''dark'' then ''light'' else ''dark'')
   \<and> dataTheme (toggleTheme s) = Some (if dataTheme s = Some ''dark'' then ''light'' else ''dark'')
   \<and> (\<not> truthy (storage s) \<longrightarrow>
        storage (onSystemChange matches s) = Some (if matches then ''dark'' else ''light'')
        \<and> dataTheme (onSystemChange matches s) = Some (if matches then ''dark'' else ''light''))
   \<and> (truthy (storage s) \<longrightarrow> onSystemChange matches s = s)
   \<and> (storage s = Some v \<and> v \<noteq> [] \<and> dataTheme s \<noteq> Some v \<longrightarrow>
        storage (onVisibilityChange False s) = Some v
        \<and> dataTheme (onVisibilityChange False s) = Some v)
   \<and> (storage s = dataTheme s \<or> \<not> truthy (storage s) \<longrightarrow> onVisibilityChange False s = s)
   \<and> onVisibilityChange True s = s
   \<and> storage (deliver s) = storage s \<and> dataTheme (deliver s) = dataTheme s
   \<and> (storage s = dataTheme s \<longrightarrow> storage (handle e s) = dataTheme (handle e s))
   \<and> storage (start prefersDark s) = dataTheme (start prefersDark s)
   \<and> storage (run es (start prefersDark s)) = dataTheme (run es (start prefersDark s))"
proof -
  have initial: "storage (init prefersDark s) = dataTheme (loadTheme prefersDark s)
      \<and> dataTheme (init prefersDark s) = dataTheme (loadTheme prefersDark s)"
    using loadTheme_converges [of prefersDark s] by (simp add: init_def)
  from initial loadTheme_converges [of prefersDark s] toggleTheme_converges [of s]
    onSystemChange_converges [of s matches] onVisibilityChange_converges [of s v]
    handle_converges [of s e] start_converges [of prefersDark s]
    run_converges [OF start_converges, of es prefersDark s]
  show ?thesis by simp
qed

theorem store_and_attribute_converge_witness:
  "storage (toggleTheme (fresh\<lparr>dataTheme := Some ''dark'', storage := Some ''blue''\<rparr>))
     = Some ''light''
   \<and> dataTheme (toggleTheme (fresh\<lparr>dataTheme := Some ''dark'', storage := Some ''blue''\<rparr>))
     = Some ''light''
   \<and> storage (onSystemChange False (fresh\<lparr>dataTheme := Some ''dark''\<rparr>)) = Some ''light''
   \<and> dataTheme (onSystemChange False (fresh\<lparr>dataTheme := Some ''dark''\<rparr>)) = Some ''light''
   \<and> storage (onVisibilityChange False
        (fresh\<lparr>dataTheme := Some ''dark'', storage := Some ''light''\<rparr>)) = Some ''light''
   \<and> dataTheme (onVisibilityChange False
        (fresh\<lparr>dataTheme := Some ''dark'', storage := Some ''light''\<rparr>)) = Some ''light''
   \<and> storage (handle Click (fresh\<lparr>dataTheme := Some ''dark'', storage := Some ''dark''\<rparr>))
     = dataTheme (handle Click (fresh\<lparr>dataTheme := Some ''dark'', storage := Some ''dark''\<rparr>))"
proof -
  let ?odd = "fresh\<lparr>dataTheme := Some ''dark'', storage := Some ''blue''\<rparr>"
  let ?unset = "fresh\<lparr>dataTheme := Some ''dark''\<rparr>"
  let ?drift = "fresh\<lparr>dataTheme := Some ''dark'', storage := Some ''light''\<rparr>"
  let ?same = "fresh\<lparr>dataTheme := Some ''dark'', storage := Some ''dark''\<rparr>"
  have "storage (toggleTheme ?odd)
        = Some (if dataTheme ?odd = Some ''dark'' then ''light'' else ''dark'')
      \<and> dataTheme (toggleTheme ?odd)
        = Some (if dataTheme ?odd = Some ''dark'' then ''light'' else ''dark'')"
    using store_and_attribute_converge [where s = ?odd and t = "[]" and prefersDark = False
        and matches = False and v = "[]" and e = Click and es = "[]"]
    by (elim conjE) (intro conjI; assumption)
  then have toggled: "storage (toggleTheme ?odd) = Some ''light''
      \<and> dataTheme (toggleTheme ?odd) = Some ''light''"
    by simp
  have "\<not> truthy (storage ?unset) \<longrightarrow>
      storage (onSystemChange False ?unset) = Some (if False then ''dark'' else ''light'')
      \<and> dataTheme (onSystemChange False ?unset) = Some (if False then ''dark'' else ''light'')"
    using store_and_attribute_converge [where s = ?unset and t = "[]" and prefersDark = False
        and matches = False and v = "[]" and e = Click and es = "[]"]
    by (elim conjE) assumption
  moreover have "\<not> truthy (storage ?unset)"
    by (simp add: fresh_def)
  ultimately have followed: "storage (onSystemChange False ?unset) = Some ''light''
      \<and> dataTheme (onSystemChange False ?unset) = Some ''light''"
    by simp
  have "storage ?drift = Some ''light'' \<and> ''light'' \<noteq> [] \<and> dataTheme ?drift \<noteq> Some ''light'' \<longrightarrow>
      storage (onVisibilityChange False ?drift) = Some ''light''
      \<and> dataTheme (onVisibilityChange False ?drift) = Some ''light''"
    using store_and_attribute_converge [where s = ?drift and t = "[]" and prefersDark = False
        and matches = False and v = "''light''" and e = Click and es = "[]"]
    by (elim conjE) assumption
  moreover have "storage ?drift = Some ''light'' \<and> ''light'' \<noteq> []
      \<and> dataTheme ?drift \<noteq> Some ''light''"
    by simp
  ultimately have reconciled: "storage (onVisibilityChange False ?drift) = Some ''light''
      \<and> dataTheme (onVisibilityChange False ?drift) = Some ''light''"
    by blast
  have "storage ?same = dataTheme ?same \<longrightarrow>
      storage (handle Click ?same) = dataTheme (handle Click ?same)"
    using store_and_attribute_converge [where s = ?same and t = "[]" and prefersDark = False
        and matches = False and v = "[]" and e = Click and es = "[]"]
    by (elim conjE) assumption
  moreover have "storage ?same = dataTheme ?same"
    by simp
  ultimately have kept: "storage (handle Click ?same) = dataTheme (handle Click ?same)"
    by blast
  from toggled followed reconciled kept show ?thesis
    by blast
qed

end
